theory Spec2Isabelle
  imports Main
begin

section \<open>The live client of the coaching console\<close>

text \<open>
  A shallow embedding of the class \<open>GenAILiveClient\<close>: the event-emitting client that
  owns the connection to the live inference service, demultiplexes the server's
  messages into events and reconnects after a lost connection.

  The object's fields are a record, every method and callback is a function from the
  client before the call to the client after it, together with the effects of the call
  in the order they happen. An effect is an event handed to the listeners (the log
  entries are events of kind \<open>log\<close>), a call on the transport session, the opening of a
  session, or a timer registered with \<open>setTimeout\<close>. Each effect is recorded with the
  client as it is at that moment, since a listener is called synchronously and can read
  the client's getters.

  Not modelled: the \<open>date\<close> field of a log entry (wall-clock time) and the output on
  the console, which no method reads back.
\<close>

subsection \<open>JavaScript strings and truthiness\<close>

text \<open>\<open>s.startsWith(p)\<close> and \<open>s.includes(t)\<close> on strings.\<close>

definition startsWith :: "string \<Rightarrow> string \<Rightarrow> bool" where
  "startsWith s p = (take (length p) s = p)"

fun includes_str :: "string \<Rightarrow> string \<Rightarrow> bool" where
  "includes_str [] t = startsWith [] t"
| "includes_str (x # xs) t = (if startsWith (x # xs) t then True else includes_str xs t)"

text \<open>
  An optional string in a condition: \<open>undefined\<close>, \<open>null\<close> and the empty string are
  falsy, every other string is truthy.
\<close>

fun truthy :: "string option \<Rightarrow> bool" where
  "truthy None = False"
| "truthy (Some s) = (s \<noteq> [])"

text \<open>The decimal digits of a number, as a template literal prints it.\<close>

definition digit :: "nat \<Rightarrow> char" where
  "digit d = char_of (48 + d)"

function string_of_nat :: "nat \<Rightarrow> string" where
  "string_of_nat n =
     (if n < 10 then [digit n] else string_of_nat (n div 10) @ [digit (n mod 10)])"
  by pat_completeness auto
termination
  by (relation "measure id") auto

declare string_of_nat.simps [simp del]

subsection \<open>Data model\<close>

datatype connection_status = Connected | Disconnected | Connecting

text \<open>
  The transport session is an object of the service binding; the client only holds a
  reference to it. The connect configuration, a tool call, a tool-call cancellation and
  a function response are passed through unread, and stand here as uninterpreted
  strings.
\<close>

type_synonym session = nat
type_synonym live_connect_config = string
type_synonym tool_call = string
type_synonym tool_call_cancellation = string
type_synonym function_response = string
type_synonym array_buffer = "nat list"

record client =
  status :: connection_status
  session :: "session option"
  model :: "string option"
  config :: "live_connect_config option"
  resumptionHandle :: "string option"
  autoReconnectEnabled :: bool
  reconnectAttempts :: nat
  maxReconnectAttempts :: nat
  reconnectDelay :: nat

text \<open>The field initialisers of the class.\<close>

definition new_client :: client where
  "new_client =
     \<lparr>status = Disconnected, session = None, model = None, config = None,
      resumptionHandle = None, autoReconnectEnabled = True, reconnectAttempts = 0,
      maxReconnectAttempts = 5, reconnectDelay = 1000\<rparr>"

text \<open>
  A content part. Only the fields the client reads are kept: \<open>text\<close> and
  \<open>inlineData\<close> with its optional \<open>mimeType\<close> and \<open>data\<close>.
\<close>

record blob =
  blob_mimeType :: "string option"
  blob_data :: "string option"

record part =
  part_text :: "string option"
  inlineData :: "blob option"

text \<open>A chunk of realtime input: both fields are required strings.\<close>

record chunk =
  mimeType :: string
  data :: string

text \<open>
  A server message: each optional field is \<open>None\<close> when the key is absent. Inside
  the server content the client tests the presence of the keys \<open>interrupted\<close>,
  \<open>turnComplete\<close> and \<open>modelTurn\<close> with \<open>in\<close>, whatever their values. A model turn
  whose value is missing is read like one with no parts
  (\<open>serverContent.modelTurn?.parts || []\<close>).
\<close>

record go_away =
  timeLeft :: "string option"

record resumption_update =
  resumable :: "bool option"
  newHandle :: "string option"

record content =
  parts :: "part list option"

record server_content =
  interrupted :: "bool option"
  turnComplete :: "bool option"
  modelTurn :: "content option"

record server_message =
  setupComplete :: "unit option"
  goAway :: "go_away option"
  sessionResumptionUpdate :: "resumption_update option"
  toolCall :: "tool_call option"
  toolCallCancellation :: "tool_call_cancellation option"
  serverContent :: "server_content option"

record tool_response =
  functionResponses :: "function_response list option"

record close_event =
  code :: nat
  reason :: string

record error_event =
  message :: string

text \<open>The argument of \<open>send\<close>: one part or an array of parts.\<close>

datatype turns = OnePart part | ManyParts "part list"

text \<open>The second field of a log entry: a string or the object that was logged.\<close>

datatype log_message =
    MsgString string
  | MsgServerMessage server_message
  | MsgToolResponse tool_response
  | MsgClientContent "part list" bool

text \<open>The events of \<open>LiveClientEventTypes\<close>, with their payloads.\<close>

datatype event =
    Audio array_buffer
  | Close close_event
  | Content "part list"
  | Error error_event
  | Interrupted
  | Log string log_message
  | Open
  | Setupcomplete
  | Toolcall tool_call
  | Toolcallcancellation tool_call_cancellation
  | Turncomplete

text \<open>
  The configuration \<open>connect\<close> opens the session with: the caller's configuration, the
  session-resumption handle when one is stored, and the sliding-window compression of
  the context window, which is always requested.
\<close>

record enhanced_config =
  base :: live_connect_config
  sessionResumption :: "string option"
  contextWindowCompression :: bool

text \<open>
  The two timers: the back-off timer of \<open>scheduleReconnect\<close> and the timer set on a
  termination warning.
\<close>

datatype timer = ReconnectTimer | GoAwayTimer

datatype effect =
    Emit event
  | LiveConnect string enhanced_config
  | SessionClose session
  | SessionSendRealtimeInput session chunk
  | SessionSendToolResponse session "function_response list"
  | SessionSendClientContent session turns bool
  | SetTimeout timer nat

type_synonym trace = "(effect \<times> client) list"

text \<open>The outcome of opening a session: it throws or it yields the session.\<close>

datatype connect_error = ConnectError string

subsection \<open>Emitting and logging\<close>

text \<open>
  \<open>emit\<close> hands an event to the listeners; \<open>log\<close> emits an event of kind \<open>log\<close>.
  A call through \<open>this.session?.\<close> reaches the transport only when a session is held.
\<close>

definition emit :: "event \<Rightarrow> client \<Rightarrow> trace" where
  "emit ev c = [(Emit ev, c)]"

definition log :: "string \<Rightarrow> log_message \<Rightarrow> client \<Rightarrow> trace" where
  "log ty msg c = emit (Log ty msg) c"

definition session_call :: "(session \<Rightarrow> effect) \<Rightarrow> client \<Rightarrow> trace" where
  "session_call f c = (case session c of None \<Rightarrow> [] | Some s \<Rightarrow> [(f s, c)])"

subsection \<open>Reconnection\<close>

text \<open>
  \<open>scheduleReconnect\<close>. The delay is \<open>reconnectDelay * Math.pow(2, reconnectAttempts)\<close>;
  the counter never exceeds \<open>maxReconnectAttempts\<close> here, far below the range where a
  JavaScript number stops being exact, so the numbers are natural numbers.
\<close>

definition scheduleReconnect :: "client \<Rightarrow> client \<times> trace" where
  "scheduleReconnect c =
     (if reconnectAttempts c \<ge> maxReconnectAttempts c then
        (c\<lparr>autoReconnectEnabled := False\<rparr>, [])
      else
        let delay = reconnectDelay c * 2 ^ reconnectAttempts c;
            c1 = c\<lparr>reconnectAttempts := reconnectAttempts c + 1\<rparr>
        in (c1, [(SetTimeout ReconnectTimer delay, c1)]))"

text \<open>
  \<open>connect\<close> awaits the opening of the session. \<open>connect_begin\<close> is the method up to
  the \<open>await\<close>, \<open>connect_end\<close> what follows it, in the \<open>catch\<close> block when the opening
  threw and after the \<open>try\<close> when it yielded a session. \<open>connect\<close> is the call during
  whose wait no other callback of the client runs.
\<close>

definition connect_begin :: "string \<Rightarrow> live_connect_config \<Rightarrow> client \<Rightarrow> client \<times> trace" where
  "connect_begin m cfg c =
     (let c1 = c\<lparr>status := Connecting\<rparr>;
          c2 = c1\<lparr>config := Some cfg\<rparr>;
          c3 = c2\<lparr>model := Some m\<rparr>;
          enhancedConfig =
            \<lparr>base = cfg,
             sessionResumption =
               (if truthy (resumptionHandle c3) then resumptionHandle c3 else None),
             contextWindowCompression = True\<rparr>
      in (c3, [(LiveConnect m enhancedConfig, c3)]))"

definition connect_end :: "connect_error + session \<Rightarrow> client \<Rightarrow> bool \<times> client \<times> trace" where
  "connect_end outcome c =
     (case outcome of
        Inl e \<Rightarrow>
          (let c1 = c\<lparr>status := Disconnected\<rparr>
           in if autoReconnectEnabled c1 \<and> reconnectAttempts c1 < maxReconnectAttempts c1
              then (let (c2, t) = scheduleReconnect c1 in (False, c2, t))
              else (False, c1, []))
      | Inr s \<Rightarrow>
          (let c1 = c\<lparr>session := Some s\<rparr>;
               c2 = c1\<lparr>status := Connected\<rparr>;
               c3 = c2\<lparr>reconnectAttempts := 0\<rparr>
           in (True, c3, [])))"

definition connect ::
  "string \<Rightarrow> live_connect_config \<Rightarrow> connect_error + session \<Rightarrow> client \<Rightarrow> bool \<times> client \<times> trace"
where
  "connect m cfg outcome c =
     (if status c = Connected \<or> status c = Connecting then (False, c, [])
      else
        let (c1, t1) = connect_begin m cfg c;
            (r, c2, t2) = connect_end outcome c1
        in (r, c2, t1 @ t2))"

text \<open>
  \<open>attemptReconnection\<close>. \<open>connect\<close> catches what the opening throws and returns a
  boolean, so the \<open>catch\<close> block of \<open>attemptReconnection\<close> is never entered.
\<close>

definition attemptReconnection :: "connect_error + session \<Rightarrow> client \<Rightarrow> client \<times> trace" where
  "attemptReconnection outcome c =
     (case config c of
        None \<Rightarrow> (c, [])
      | Some cfg \<Rightarrow>
          (case model c of
             None \<Rightarrow> (c, [])
           | Some m \<Rightarrow>
               if m = [] then (c, [])
               else
                 let (success, c1, t1) = connect m cfg outcome c
                 in if success then (c1, t1 @ emit Setupcomplete c1) else (c1, t1)))"

definition setAutoReconnect :: "bool \<Rightarrow> client \<Rightarrow> client" where
  "setAutoReconnect enabled c =
     (let c1 = c\<lparr>autoReconnectEnabled := enabled\<rparr>
      in if \<not> enabled then c1\<lparr>reconnectAttempts := 0\<rparr> else c1)"

record reconnection_status =
  enabled :: bool
  attempts :: nat
  maxAttempts :: nat
  hasResumptionHandle :: bool

definition getReconnectionStatus :: "client \<Rightarrow> reconnection_status" where
  "getReconnectionStatus c =
     \<lparr>enabled = autoReconnectEnabled c, attempts = reconnectAttempts c,
      maxAttempts = maxReconnectAttempts c,
      hasResumptionHandle = truthy (resumptionHandle c)\<rparr>"

subsection \<open>Lifecycle callbacks and disconnect\<close>

definition disconnect :: "client \<Rightarrow> bool \<times> client \<times> trace" where
  "disconnect c =
     (case session c of
        None \<Rightarrow> (False, c, [])
      | Some s \<Rightarrow>
          (let t1 = [(SessionClose s, c)];
               c1 = c\<lparr>session := None\<rparr>;
               c2 = c1\<lparr>status := Disconnected\<rparr>;
               t2 = log ''client.close'' (MsgString ''Disconnected'') c2
           in (True, c2, t1 @ t2)))"

definition onopen :: "client \<Rightarrow> client \<times> trace" where
  "onopen c = (c, log ''client.open'' (MsgString ''Connected'') c @ emit Open c)"

definition onerror :: "error_event \<Rightarrow> client \<Rightarrow> client \<times> trace" where
  "onerror e c = (c, log ''server.error'' (MsgString (message e)) c @ emit (Error e) c)"

definition onclose :: "close_event \<Rightarrow> client \<Rightarrow> client \<times> trace" where
  "onclose e c =
     (let t1 = log ''server.close''
                 (MsgString (''disconnected '' @
                    (if reason e \<noteq> [] then ''with reason: '' @ reason e else [])))
                 c;
          c1 = c\<lparr>status := Disconnected\<rparr>;
          c2 = c1\<lparr>session := None\<rparr>;
          (c3, t2) =
            (if autoReconnectEnabled c2 \<and> code e \<noteq> 1000 then scheduleReconnect c2
             else (c2, []));
          t3 = emit (Close e) c3
      in (c3, t1 @ t2 @ t3))"

subsection \<open>Inbound messages\<close>

text \<open>
  The predicate of the filter that picks the audio parts:
  \<open>p.inlineData && p.inlineData.mimeType?.startsWith("audio/pcm")\<close>.
\<close>

definition isAudioPart :: "part \<Rightarrow> bool" where
  "isAudioPart p =
     (case inlineData p of
        None \<Rightarrow> False
      | Some b \<Rightarrow>
          (case blob_mimeType b of None \<Rightarrow> False | Some m \<Rightarrow> startsWith m ''audio/pcm''))"

text \<open>
  \<open>difference\<close> of the utility library: the elements of the first array that are not in
  the second, in their order.
\<close>

definition difference :: "'a list \<Rightarrow> 'a list \<Rightarrow> 'a list" where
  "difference xs ys = filter (\<lambda>x. x \<notin> set ys) xs"

text \<open>
  The body of the \<open>forEach\<close> over the base64 strings of the audio parts: a string that
  is missing or empty is skipped. \<open>base64ToArrayBuffer\<close> is a function of the
  repository's utilities and is a parameter here.
\<close>

definition audio_step :: "(string \<Rightarrow> array_buffer) \<Rightarrow> client \<Rightarrow> string option \<Rightarrow> trace" where
  "audio_step base64ToArrayBuffer c b64 =
     (case b64 of
        None \<Rightarrow> []
      | Some s \<Rightarrow>
          if s = [] then []
          else
            let d = base64ToArrayBuffer s
            in emit (Audio d) c @
               log ''server.audio'' (MsgString (''buffer ('' @ string_of_nat (length d) @ '')'')) c)"

definition onmessage_modelTurn ::
  "(string \<Rightarrow> array_buffer) \<Rightarrow> server_message \<Rightarrow> content \<Rightarrow> client \<Rightarrow> trace"
where
  "onmessage_modelTurn base64ToArrayBuffer msg mt c =
     (let ps = (case parts mt of None \<Rightarrow> [] | Some xs \<Rightarrow> xs);
          audioParts = filter isAudioPart ps;
          base64s =
            map (\<lambda>p. case inlineData p of None \<Rightarrow> None | Some b \<Rightarrow> blob_data b) audioParts;
          otherParts = difference ps audioParts;
          t1 = concat (map (audio_step base64ToArrayBuffer c) base64s)
      in if otherParts = [] then t1
         else t1 @ emit (Content otherParts) c @
              log ''server.content'' (MsgServerMessage msg) c)"

definition onmessage_serverContent ::
  "(string \<Rightarrow> array_buffer) \<Rightarrow> server_message \<Rightarrow> server_content \<Rightarrow> client \<Rightarrow> trace"
where
  "onmessage_serverContent base64ToArrayBuffer msg sc c =
     (case interrupted sc of
        Some i \<Rightarrow> log ''server.content'' (MsgString ''interrupted'') c @ emit Interrupted c
      | None \<Rightarrow>
          (let t1 =
                 (case turnComplete sc of
                    Some b \<Rightarrow>
                      log ''server.content'' (MsgString ''turnComplete'') c @
                      emit Turncomplete c
                  | None \<Rightarrow> []);
               t2 =
                 (case modelTurn sc of
                    Some mt \<Rightarrow> onmessage_modelTurn base64ToArrayBuffer msg mt c
                  | None \<Rightarrow> [])
           in t1 @ t2))"

text \<open>
  The termination warning. \<open>parseInt\<close> is the language's own function, a parameter
  here: \<open>None\<close> is \<open>NaN\<close>. The timer is set to \<open>Math.max(0, timeLeftMs - 1000)\<close>.
  The subtraction is that of the integers, which is what the source computes for a
  number of milliseconds of magnitude below \<open>2^53\<close>, the range in which a JavaScript
  number holds every integer; beyond it the source rounds and the model does not.
\<close>

definition onmessage_goAway :: "(string \<Rightarrow> int option) \<Rightarrow> go_away \<Rightarrow> client \<Rightarrow> trace" where
  "onmessage_goAway parseInt ga c =
     (let t1 = log ''server.goaway''
                 (MsgString (''Connection terminating in '' @
                    (case timeLeft ga of None \<Rightarrow> ''undefined'' | Some s \<Rightarrow> s)))
                 c;
          t2 =
            (if autoReconnectEnabled c \<and> truthy (timeLeft ga) then
               (case timeLeft ga of
                  None \<Rightarrow> []
                | Some s \<Rightarrow>
                    (case parseInt s of
                       None \<Rightarrow> []
                     | Some timeLeftMs \<Rightarrow>
                         [(SetTimeout GoAwayTimer (nat (max 0 (timeLeftMs - 1000))), c)]))
             else [])
      in t1 @ t2)"

text \<open>The session-resumption update: the only place that assigns the handle.\<close>

definition onmessage_resumption :: "resumption_update \<Rightarrow> client \<Rightarrow> client \<times> trace" where
  "onmessage_resumption u c =
     (if resumable u = Some True \<and> truthy (newHandle u) then
        (let c1 = c\<lparr>resumptionHandle := newHandle u\<rparr>
         in (c1,
             log ''server.resumption''
               (MsgString (''New resumption handle: '' @
                  (case resumptionHandle c1 of None \<Rightarrow> [] | Some h \<Rightarrow> h)))
               c1))
      else (c, []))"

text \<open>\<open>onmessage\<close>: the first marker that is present decides, in the order of the source.\<close>

definition onmessage ::
  "(string \<Rightarrow> array_buffer) \<Rightarrow> (string \<Rightarrow> int option) \<Rightarrow> server_message \<Rightarrow> client \<Rightarrow>
   client \<times> trace"
where
  "onmessage base64ToArrayBuffer parseInt msg c =
     (case setupComplete msg of
        Some u \<Rightarrow> (c, log ''server.send'' (MsgString ''setupComplete'') c @ emit Setupcomplete c)
      | None \<Rightarrow>
     (case goAway msg of
        Some ga \<Rightarrow> (c, onmessage_goAway parseInt ga c)
      | None \<Rightarrow>
     (case sessionResumptionUpdate msg of
        Some u \<Rightarrow> onmessage_resumption u c
      | None \<Rightarrow>
     (case toolCall msg of
        Some tc \<Rightarrow> (c, log ''server.toolCall'' (MsgServerMessage msg) c @ emit (Toolcall tc) c)
      | None \<Rightarrow>
     (case toolCallCancellation msg of
        Some tcc \<Rightarrow>
          (c, log ''server.toolCallCancellation'' (MsgServerMessage msg) c @
              emit (Toolcallcancellation tcc) c)
      | None \<Rightarrow>
     (case serverContent msg of
        Some sc \<Rightarrow> (c, onmessage_serverContent base64ToArrayBuffer msg sc c)
      | None \<Rightarrow> (c, [])))))))"

subsection \<open>Outbound commands\<close>

text \<open>
  The loop of \<open>sendRealtimeInput\<close> over the chunks, with its two flags; it yields the
  flags at the end of the loop and what was sent. The loop is left as soon as both flags
  are set.
\<close>

fun sendRealtimeInput_loop :: "client \<Rightarrow> chunk list \<Rightarrow> bool \<Rightarrow> bool \<Rightarrow> (bool \<times> bool) \<times> trace" where
  "sendRealtimeInput_loop c [] hasAudio hasVideo = ((hasAudio, hasVideo), [])"
| "sendRealtimeInput_loop c (ch # rest) hasAudio hasVideo =
     (let t = session_call (\<lambda>s. SessionSendRealtimeInput s ch) c;
          hasAudio1 = (if includes_str (mimeType ch) ''audio'' then True else hasAudio);
          hasVideo1 = (if includes_str (mimeType ch) ''image'' then True else hasVideo)
      in if hasAudio1 \<and> hasVideo1 then ((hasAudio1, hasVideo1), t)
         else
           let (flags, t') = sendRealtimeInput_loop c rest hasAudio1 hasVideo1
           in (flags, t @ t'))"

definition sendRealtimeInput :: "chunk list \<Rightarrow> client \<Rightarrow> client \<times> trace" where
  "sendRealtimeInput chunks c =
     (let ((hasAudio, hasVideo), t) = sendRealtimeInput_loop c chunks False False;
          msg =
            (if hasAudio \<and> hasVideo then ''audio + video''
             else if hasAudio then ''audio''
             else if hasVideo then ''video''
             else ''unknown'')
      in (c, t @ log ''client.realtimeInput'' (MsgString msg) c))"

definition sendToolResponse :: "tool_response \<Rightarrow> client \<Rightarrow> client \<times> trace" where
  "sendToolResponse toolResponse c =
     (case functionResponses toolResponse of
        None \<Rightarrow> (c, [])
      | Some frs \<Rightarrow>
          if frs = [] then (c, [])
          else
            (c, session_call (\<lambda>s. SessionSendToolResponse s frs) c @
                log ''client.toolResponse'' (MsgToolResponse toolResponse) c))"

text \<open>
  \<open>send\<close>. The test for the system command computes a value that nothing reads, and is
  left out.
\<close>

definition send :: "turns \<Rightarrow> bool \<Rightarrow> client \<Rightarrow> client \<times> trace" where
  "send ps tc c =
     (let t1 = session_call (\<lambda>s. SessionSendClientContent s ps tc) c;
          partArray = (case ps of ManyParts xs \<Rightarrow> xs | OnePart p \<Rightarrow> [p])
      in (c, t1 @ log ''client.send'' (MsgClientContent partArray tc) c))"

subsection \<open>The client as a transition system\<close>

text \<open>
  Every entry point that touches the client: the public methods, the four callbacks of
  the session, and the two timer callbacks. A call that opens a session carries the
  outcome of the opening.
\<close>

datatype operation =
    Connect string live_connect_config "connect_error + session"
  | Disconnect
  | OnOpen
  | OnError error_event
  | OnClose close_event
  | OnMessage server_message
  | SendRealtimeInput "chunk list"
  | SendToolResponse tool_response
  | Send turns bool
  | SetAutoReconnect bool
  | ReconnectTimerFired "connect_error + session"
  | GoAwayTimerFired "connect_error + session"

fun step ::
  "(string \<Rightarrow> array_buffer) \<Rightarrow> (string \<Rightarrow> int option) \<Rightarrow> operation \<Rightarrow> client \<Rightarrow> client \<times> trace"
where
  "step b64 pint (Connect m cfg outcome) c = snd (connect m cfg outcome c)"
| "step b64 pint Disconnect c = snd (disconnect c)"
| "step b64 pint OnOpen c = onopen c"
| "step b64 pint (OnError e) c = onerror e c"
| "step b64 pint (OnClose e) c = onclose e c"
| "step b64 pint (OnMessage msg) c = onmessage b64 pint msg c"
| "step b64 pint (SendRealtimeInput chunks) c = sendRealtimeInput chunks c"
| "step b64 pint (SendToolResponse r) c = sendToolResponse r c"
| "step b64 pint (Send ps tc) c = send ps tc c"
| "step b64 pint (SetAutoReconnect en) c = (setAutoReconnect en c, [])"
| "step b64 pint (ReconnectTimerFired outcome) c = attemptReconnection outcome c"
| "step b64 pint (GoAwayTimerFired outcome) c =
     (if status c = Connected then attemptReconnection outcome c else (c, []))"

fun run ::
  "(string \<Rightarrow> array_buffer) \<Rightarrow> (string \<Rightarrow> int option) \<Rightarrow> operation list \<Rightarrow> client \<Rightarrow>
   client \<times> trace"
where
  "run b64 pint [] c = (c, [])"
| "run b64 pint (op # ops) c =
     (let (c1, t1) = step b64 pint op c;
          (c2, t2) = run b64 pint ops c1
      in (c2, t1 @ t2))"

text \<open>
  What a trace holds: the timers that were set, with their delays; the events other than
  log entries; the log entries; the chunks handed to the session; and everything that
  went to the transport.
\<close>

fun timers :: "trace \<Rightarrow> (timer \<times> nat) list" where
  "timers [] = []"
| "timers ((SetTimeout k d, c) # t) = (k, d) # timers t"
| "timers (x # t) = timers t"

fun notifications :: "trace \<Rightarrow> event list" where
  "notifications [] = []"
| "notifications ((Emit (Log ty msg), c) # t) = notifications t"
| "notifications ((Emit ev, c) # t) = ev # notifications t"
| "notifications (x # t) = notifications t"

fun log_entries :: "trace \<Rightarrow> (string \<times> log_message) list" where
  "log_entries [] = []"
| "log_entries ((Emit (Log ty msg), c) # t) = (ty, msg) # log_entries t"
| "log_entries (x # t) = log_entries t"

fun sent_chunks :: "trace \<Rightarrow> chunk list" where
  "sent_chunks [] = []"
| "sent_chunks ((SessionSendRealtimeInput s ch, c) # t) = ch # sent_chunks t"
| "sent_chunks (x # t) = sent_chunks t"

fun transmissions :: "trace \<Rightarrow> effect list" where
  "transmissions [] = []"
| "transmissions ((Emit ev, c) # t) = transmissions t"
| "transmissions ((SetTimeout k d, c) # t) = transmissions t"
| "transmissions ((eff, c) # t) = eff # transmissions t"

subsection \<open>Notions used in the properties\<close>

text \<open>
  Events that are failures only: a closure, or an attempt to open a session that
  throws.
\<close>

fun failure_only :: "operation \<Rightarrow> bool" where
  "failure_only (OnClose e) = True"
| "failure_only (Connect m cfg (Inl err)) = True"
| "failure_only (ReconnectTimerFired (Inl err)) = True"
| "failure_only (GoAwayTimerFired (Inl err)) = True"
| "failure_only other = False"

text \<open>
  A message is handled as server content when none of the five markers tested before
  it is present and the server content is.
\<close>

definition is_serverContent_message :: "server_message \<Rightarrow> server_content \<Rightarrow> bool" where
  "is_serverContent_message msg sc =
     (setupComplete msg = None \<and> goAway msg = None \<and> sessionResumptionUpdate msg = None \<and>
      toolCall msg = None \<and> toolCallCancellation msg = None \<and> serverContent msg = Some sc)"

text \<open>The base64 string for which a part is emitted as audio: the data of an audio
  part, when it is there and not empty.\<close>

definition audioPayload :: "part \<Rightarrow> string option" where
  "audioPayload p =
     (if isAudioPart p then
        (case inlineData p of
           None \<Rightarrow> None
         | Some b \<Rightarrow>
             (case blob_data b of None \<Rightarrow> None | Some s \<Rightarrow> if s = [] then None else Some s))
      else None)"

section \<open>Properties\<close>

subsection \<open>Traces\<close>

lemma timers_append [simp]: "timers (t1 @ t2) = timers t1 @ timers t2"
  by (induction t1 rule: timers.induct) simp_all

lemma notifications_append [simp]:
  "notifications (t1 @ t2) = notifications t1 @ notifications t2"
  by (induction t1 rule: notifications.induct) simp_all

lemma log_entries_append [simp]: "log_entries (t1 @ t2) = log_entries t1 @ log_entries t2"
  by (induction t1 rule: log_entries.induct) simp_all

lemma sent_chunks_append [simp]: "sent_chunks (t1 @ t2) = sent_chunks t1 @ sent_chunks t2"
  by (induction t1 rule: sent_chunks.induct) simp_all

lemma transmissions_append [simp]:
  "transmissions (t1 @ t2) = transmissions t1 @ transmissions t2"
  by (induction t1 rule: transmissions.induct) simp_all

lemma timers_emit [simp]: "timers (emit ev c) = []"
  by (simp add: emit_def)

lemma timers_log [simp]: "timers (log ty msg c) = []"
  by (simp add: log_def)

lemma notifications_log [simp]: "notifications (log ty msg c) = []"
  by (simp add: log_def emit_def)

lemma sent_chunks_log [simp]: "sent_chunks (log ty msg c) = []"
  by (simp add: log_def emit_def)

lemma transmissions_emit [simp]: "transmissions (emit ev c) = []"
  by (simp add: emit_def)

lemma transmissions_log [simp]: "transmissions (log ty msg c) = []"
  by (simp add: log_def)

subsection \<open>Realtime input\<close>

lemma sendRealtimeInput_client: "fst (sendRealtimeInput chunks c) = c"
  by (simp add: sendRealtimeInput_def split: prod.splits)

lemma sendRealtimeInput_loop_sent:
  "sent_chunks (snd (sendRealtimeInput_loop c (ch # rest) a v)) =
     sent_chunks (session_call (\<lambda>s. SessionSendRealtimeInput s ch) c) @
     (if (includes_str (mimeType ch) ''audio'' \<or> a) \<and> (includes_str (mimeType ch) ''image'' \<or> v)
      then []
      else sent_chunks (snd (sendRealtimeInput_loop c rest
             (includes_str (mimeType ch) ''audio'' \<or> a)
             (includes_str (mimeType ch) ''image'' \<or> v))))"
  by (cases "includes_str (mimeType ch) ''audio''"; cases "includes_str (mimeType ch) ''image''";
      cases a; cases v)
     (simp_all add: Let_def case_prod_beta)

text \<open>
  What the loop hands to the session is always an initial segment of the chunks, in
  their order.
\<close>

lemma sendRealtimeInput_loop_prefix:
  "session c = Some s \<Longrightarrow>
   \<exists>n. sent_chunks (snd (sendRealtimeInput_loop c chunks a v)) = take n chunks"
proof (induction chunks arbitrary: a v)
  case Nil
  then show ?case by simp
next
  case (Cons ch rest)
  let ?a = "includes_str (mimeType ch) ''audio'' \<or> a"
  let ?v = "includes_str (mimeType ch) ''image'' \<or> v"
  have one: "sent_chunks (session_call (\<lambda>s. SessionSendRealtimeInput s ch) c) = [ch]"
    using Cons.prems by (simp add: session_call_def)
  show ?case
  proof (cases "?a \<and> ?v")
    case True
    then have "sent_chunks (snd (sendRealtimeInput_loop c (ch # rest) a v)) = take 1 (ch # rest)"
      unfolding sendRealtimeInput_loop_sent one by simp
    then show ?thesis by blast
  next
    case False
    from Cons.IH [OF Cons.prems, of ?a ?v] obtain n where
      n: "sent_chunks (snd (sendRealtimeInput_loop c rest ?a ?v)) = take n rest"
      by blast
    from False have "\<not> (?a \<and> ?v)" .
    with n
    have "sent_chunks (snd (sendRealtimeInput_loop c (ch # rest) a v)) = take (Suc n) (ch # rest)"
      unfolding sendRealtimeInput_loop_sent one by (simp del: de_Morgan_conj)
    then show ?thesis by blast
  qed
qed

text \<open>
  As long as no chunk is an image, the loop never leaves early and every chunk reaches
  the session.
\<close>

lemma sendRealtimeInput_loop_no_image:
  "session c = Some s \<Longrightarrow>
   list_all (\<lambda>ch. \<not> includes_str (mimeType ch) ''image'') chunks \<Longrightarrow>
   sent_chunks (snd (sendRealtimeInput_loop c chunks a False)) = chunks"
proof (induction chunks arbitrary: a)
  case Nil
  then show ?case by simp
next
  case (Cons ch rest)
  have one: "sent_chunks (session_call (\<lambda>s. SessionSendRealtimeInput s ch) c) = [ch]"
    using Cons.prems by (simp add: session_call_def)
  from Cons.prems have ni: "\<not> includes_str (mimeType ch) ''image''"
    and rest: "list_all (\<lambda>ch. \<not> includes_str (mimeType ch) ''image'') rest"
    by simp_all
  show ?case
    unfolding sendRealtimeInput_loop_sent one
    using ni Cons.IH [OF Cons.prems(1) rest] by simp
qed

lemma sendRealtimeInput_no_image:
  "session c = Some s \<Longrightarrow>
   list_all (\<lambda>ch. \<not> includes_str (mimeType ch) ''image'') chunks \<Longrightarrow>
   sent_chunks (snd (sendRealtimeInput chunks c)) = chunks"
  using sendRealtimeInput_loop_no_image [of c s chunks False]
  by (simp add: sendRealtimeInput_def case_prod_beta)

text \<open>
  C1. The claim: with a transport session present, \<open>sendRealtimeInput\<close> forwards every
  chunk of its input to the session, in order, and the audio/video classification only
  decides the log message. On the three chunks audio, image, audio the loop is left
  after the second chunk, when both kinds have been seen: the session receives the
  first two chunks, the third is never sent, and the log entry reads
  \<open>audio + video\<close>.
\<close>

theorem sendRealtimeInput_drops_chunks_after_audio_and_image:
  "sent_chunks (snd (sendRealtimeInput
      [\<lparr>mimeType = ''audio/pcm'', data = ''QQ==''\<rparr>,
       \<lparr>mimeType = ''image/jpeg'', data = ''Qg==''\<rparr>,
       \<lparr>mimeType = ''audio/pcm'', data = ''Qw==''\<rparr>]
      (new_client\<lparr>status := Connected, session := Some 0\<rparr>)))
   = [\<lparr>mimeType = ''audio/pcm'', data = ''QQ==''\<rparr>,
      \<lparr>mimeType = ''image/jpeg'', data = ''Qg==''\<rparr>]
   \<and> log_entries (snd (sendRealtimeInput
      [\<lparr>mimeType = ''audio/pcm'', data = ''QQ==''\<rparr>,
       \<lparr>mimeType = ''image/jpeg'', data = ''Qg==''\<rparr>,
       \<lparr>mimeType = ''audio/pcm'', data = ''Qw==''\<rparr>]
      (new_client\<lparr>status := Connected, session := Some 0\<rparr>)))
   = [(''client.realtimeInput'', MsgString ''audio + video'')]"
  by (simp add: sendRealtimeInput_def session_call_def new_client_def startsWith_def
      log_def emit_def)

subsection \<open>Back-off and the attempt budget\<close>

text \<open>
  Below the ceiling \<open>scheduleReconnect\<close> sets one timer, whose delay is the base delay
  times two to the power of the counter as it is before the call, and counts the
  attempt. At the ceiling it sets no timer and switches auto-reconnection off.
\<close>

lemma scheduleReconnect_below_ceiling:
  "reconnectAttempts c < maxReconnectAttempts c \<Longrightarrow>
   scheduleReconnect c =
     (c\<lparr>reconnectAttempts := reconnectAttempts c + 1\<rparr>,
      [(SetTimeout ReconnectTimer (reconnectDelay c * 2 ^ reconnectAttempts c),
        c\<lparr>reconnectAttempts := reconnectAttempts c + 1\<rparr>)])"
  by (simp add: scheduleReconnect_def Let_def)

lemma scheduleReconnect_at_ceiling:
  "maxReconnectAttempts c \<le> reconnectAttempts c \<Longrightarrow>
   scheduleReconnect c = (c\<lparr>autoReconnectEnabled := False\<rparr>, [])"
  by (simp add: scheduleReconnect_def)

lemma onclose_client:
  "fst (onclose e c) =
     (if autoReconnectEnabled c \<and> code e \<noteq> 1000 then
        if reconnectAttempts c < maxReconnectAttempts c
        then c\<lparr>status := Disconnected, session := None,
               reconnectAttempts := reconnectAttempts c + 1\<rparr>
        else c\<lparr>status := Disconnected, session := None, autoReconnectEnabled := False\<rparr>
      else c\<lparr>status := Disconnected, session := None\<rparr>)"
  by (simp add: onclose_def scheduleReconnect_def Let_def)

lemma onclose_timers:
  "timers (snd (onclose e c)) =
     (if autoReconnectEnabled c \<and> code e \<noteq> 1000 \<and>
         reconnectAttempts c < maxReconnectAttempts c
      then [(ReconnectTimer, reconnectDelay c * 2 ^ reconnectAttempts c)] else [])"
  by (simp add: onclose_def scheduleReconnect_def Let_def)

lemma onclose_notifications: "notifications (snd (onclose e c)) = [Close e]"
  by (simp add: onclose_def scheduleReconnect_def Let_def emit_def)

lemma onclose_last: "last (snd (onclose e c)) = (Emit (Close e), fst (onclose e c))"
  by (simp add: onclose_def scheduleReconnect_def Let_def emit_def)

lemma run_Cons_timers:
  "timers (snd (run b64 pint (op # ops) c)) =
     timers (snd (step b64 pint op c)) @
     timers (snd (run b64 pint ops (fst (step b64 pint op c))))"
  by (simp add: case_prod_beta)

lemma run_Cons_client:
  "fst (run b64 pint (op # ops) c) = fst (run b64 pint ops (fst (step b64 pint op c)))"
  by (simp add: case_prod_beta)

text \<open>
  Abnormal closures in a row, none of them followed by a successful connect: while the
  budget lasts, each one sets the next timer of the doubling sequence.
\<close>

lemma run_closes_within_budget:
  "code e \<noteq> 1000 \<Longrightarrow> autoReconnectEnabled c \<Longrightarrow>
   reconnectAttempts c + k \<le> maxReconnectAttempts c \<Longrightarrow>
   timers (snd (run b64 pint (replicate k (OnClose e)) c)) =
     map (\<lambda>i. (ReconnectTimer, reconnectDelay c * 2 ^ (reconnectAttempts c + i))) [0..<k]"
proof (induction k arbitrary: c)
  case 0
  then show ?case by simp
next
  case (Suc k)
  let ?c1 = "fst (onclose e c)"
  from Suc.prems have c1: "?c1 = c\<lparr>status := Disconnected, session := None,
      reconnectAttempts := reconnectAttempts c + 1\<rparr>"
    by (simp add: onclose_client)
  have ih: "timers (snd (run b64 pint (replicate k (OnClose e)) ?c1)) =
      map (\<lambda>i. (ReconnectTimer, reconnectDelay ?c1 * 2 ^ (reconnectAttempts ?c1 + i))) [0..<k]"
    using Suc.prems by (intro Suc.IH) (simp_all add: c1)
  have upt: "[0..<Suc k] = 0 # map Suc [0..<k]"
    by (simp add: upt_conv_Cons map_Suc_upt del: upt_Suc)
  have "timers (snd (run b64 pint (replicate (Suc k) (OnClose e)) c)) =
      (ReconnectTimer, reconnectDelay c * 2 ^ reconnectAttempts c) #
      map (\<lambda>i. (ReconnectTimer, reconnectDelay c * 2 ^ (reconnectAttempts c + Suc i))) [0..<k]"
    using Suc.prems
    by (simp add: run_Cons_timers onclose_timers ih del: run.simps(2)) (simp add: c1)
  also have "\<dots> =
      map (\<lambda>i. (ReconnectTimer, reconnectDelay c * 2 ^ (reconnectAttempts c + i))) [0..<Suc k]"
    unfolding upt by (simp add: comp_def)
  finally show ?case .
qed

text \<open>
  Once the counter is at the ceiling, no sequence of failures sets a timer, and the
  counter stays where it is.
\<close>

lemma connect_throws_at_ceiling:
  "maxReconnectAttempts c \<le> reconnectAttempts c \<Longrightarrow>
   timers (snd (snd (connect m cfg (Inl err) c))) = [] \<and>
   reconnectAttempts (fst (snd (connect m cfg (Inl err) c))) = reconnectAttempts c \<and>
   maxReconnectAttempts (fst (snd (connect m cfg (Inl err) c))) = maxReconnectAttempts c"
  by (simp add: connect_def connect_begin_def connect_end_def Let_def)

lemma attemptReconnection_throws_at_ceiling:
  "maxReconnectAttempts c \<le> reconnectAttempts c \<Longrightarrow>
   timers (snd (attemptReconnection (Inl err) c)) = [] \<and>
   reconnectAttempts (fst (attemptReconnection (Inl err) c)) = reconnectAttempts c \<and>
   maxReconnectAttempts (fst (attemptReconnection (Inl err) c)) = maxReconnectAttempts c"
  using connect_throws_at_ceiling [of c _ _ err]
  by (simp add: attemptReconnection_def case_prod_beta split: option.splits)

lemma failure_step_at_ceiling:
  "maxReconnectAttempts c \<le> reconnectAttempts c \<Longrightarrow> failure_only op \<Longrightarrow>
   timers (snd (step b64 pint op c)) = [] \<and>
   reconnectAttempts (fst (step b64 pint op c)) = reconnectAttempts c \<and>
   maxReconnectAttempts (fst (step b64 pint op c)) = maxReconnectAttempts c"
proof (induction op rule: failure_only.induct)
  case (1 e)
  then show ?case by (simp add: onclose_timers onclose_client)
next
  case (2 m cfg err)
  then show ?case using connect_throws_at_ceiling [of c m cfg err] by simp
next
  case (3 err)
  then show ?case using attemptReconnection_throws_at_ceiling [of c err] by simp
next
  case (4 err)
  then show ?case using attemptReconnection_throws_at_ceiling [of c err] by simp
qed simp_all

lemma failures_at_ceiling_set_no_timer:
  "maxReconnectAttempts c \<le> reconnectAttempts c \<Longrightarrow> list_all failure_only ops \<Longrightarrow>
   timers (snd (run b64 pint ops c)) = []"
proof (induction ops arbitrary: c)
  case Nil
  then show ?case by simp
next
  case (Cons op ops)
  from Cons.prems have f: "failure_only op" and fs: "list_all failure_only ops"
    by simp_all
  note st = failure_step_at_ceiling [OF Cons.prems(1) f, of b64 pint]
  from st Cons.prems(1)
  have "maxReconnectAttempts (fst (step b64 pint op c)) \<le>
        reconnectAttempts (fst (step b64 pint op c))"
    by simp
  from Cons.IH [OF this fs] st show ?case
    by (simp add: run_Cons_timers del: run.simps(2))
qed

text \<open>
  With the defaults, six abnormal closures in a row set the timers 1000, 2000, 4000,
  8000 and 16000 ms; the sixth finds the counter at 5, sets none and switches
  auto-reconnection off.
\<close>

lemma replicate_six: "replicate 6 x = [x, x, x, x, x, x]"
  by (simp add: eval_nat_numeral)

lemma six_closures_with_defaults:
  "timers (snd (run b64 pint (replicate 6 (OnClose \<lparr>code = 1006, reason = ''''\<rparr>)) new_client)) =
     [(ReconnectTimer, 1000), (ReconnectTimer, 2000), (ReconnectTimer, 4000),
      (ReconnectTimer, 8000), (ReconnectTimer, 16000)] \<and>
   autoReconnectEnabled
     (fst (run b64 pint (replicate 6 (OnClose \<lparr>code = 1006, reason = ''''\<rparr>)) new_client)) = False"
  unfolding replicate_six
  by (simp add: new_client_def onclose_def scheduleReconnect_def log_def emit_def Let_def)

text \<open>
  C2. The claim: the delay of a reconnection is \<open>baseDelay * 2^attemptCount\<close>; with the
  defaults, failed reconnections are scheduled after 1000, 2000, 4000, 8000 and
  16000 ms, and after the fifth failed attempt \<open>autoReconnectEnabled\<close> is false and
  nothing more is scheduled. The run below is a client that connects, loses the
  connection abnormally, and whose five reconnection attempts each fail because the
  opening of the session throws. The five timers are as claimed and no sixth one is
  set, but the \<open>catch\<close> block of \<open>connect\<close> calls \<open>scheduleReconnect\<close> only while
  attempts remain, so the branch of \<open>scheduleReconnect\<close> that switches
  auto-reconnection off is not reached: the flag is still true after the fifth failed
  attempt, with the counter at 5.
\<close>

theorem failed_connects_leave_autoReconnect_enabled:
  "timers (snd (run b64 pint
      [Connect ''model'' ''config'' (Inr 0),
       OnClose \<lparr>code = 1006, reason = ''''\<rparr>,
       ReconnectTimerFired (Inl (ConnectError ''refused'')),
       ReconnectTimerFired (Inl (ConnectError ''refused'')),
       ReconnectTimerFired (Inl (ConnectError ''refused'')),
       ReconnectTimerFired (Inl (ConnectError ''refused'')),
       ReconnectTimerFired (Inl (ConnectError ''refused''))]
      new_client)) =
     [(ReconnectTimer, 1000), (ReconnectTimer, 2000), (ReconnectTimer, 4000),
      (ReconnectTimer, 8000), (ReconnectTimer, 16000)] \<and>
   getReconnectionStatus (fst (run b64 pint
      [Connect ''model'' ''config'' (Inr 0),
       OnClose \<lparr>code = 1006, reason = ''''\<rparr>,
       ReconnectTimerFired (Inl (ConnectError ''refused'')),
       ReconnectTimerFired (Inl (ConnectError ''refused'')),
       ReconnectTimerFired (Inl (ConnectError ''refused'')),
       ReconnectTimerFired (Inl (ConnectError ''refused'')),
       ReconnectTimerFired (Inl (ConnectError ''refused''))]
      new_client)) =
     \<lparr>enabled = True, attempts = 5, maxAttempts = 5, hasResumptionHandle = False\<rparr>"
  by (simp add: new_client_def connect_def connect_begin_def connect_end_def onclose_def
      scheduleReconnect_def attemptReconnection_def getReconnectionStatus_def
      log_def emit_def Let_def)

subsection \<open>Closure of the connection\<close>

lemma replicate_five: "replicate 5 x = [x, x, x, x, x]"
  by (simp add: eval_nat_numeral)

text \<open>
  C3, as the claim has it: on every close event whose code is not 1000, with
  auto-reconnection enabled, exactly one reconnection attempt is scheduled. This fails
  for a client that has used up its attempts: after five abnormal closures in a row
  auto-reconnection is still enabled and the counter is at the ceiling, and the next
  abnormal closure sets no timer.
\<close>

theorem onclose_at_ceiling_counterexample:
  "code \<lparr>code = 1006, reason = ''''\<rparr> \<noteq> 1000 \<and>
   autoReconnectEnabled
     (fst (run (\<lambda>s. []) (\<lambda>s. None)
        (replicate 5 (OnClose \<lparr>code = 1006, reason = ''''\<rparr>)) new_client)) \<and>
   timers (snd (onclose \<lparr>code = 1006, reason = ''''\<rparr>
     (fst (run (\<lambda>s. []) (\<lambda>s. None)
        (replicate 5 (OnClose \<lparr>code = 1006, reason = ''''\<rparr>)) new_client)))) = []"
  unfolding replicate_five
  by (simp add: new_client_def onclose_def scheduleReconnect_def log_def emit_def Let_def)

text \<open>
  C3, amended: on every close event the status becomes Disconnected and the session
  handle is cleared; the close notification is the last effect of the callback, is the
  only notification, and its listeners see the client with these updates made. A
  reconnection attempt is scheduled exactly when the code is not 1000,
  auto-reconnection is enabled and the attempt counter is below the maximum; then it
  is the only timer, and its delay is the base delay times two to the power of the
  counter. In every other case, so for code 1000 whatever the setting, no timer is set.
\<close>

theorem onclose_reconnects_within_budget:
  "status (fst (onclose e c)) = Disconnected \<and>
   session (fst (onclose e c)) = None \<and>
   (\<exists>before. snd (onclose e c) = before @ [(Emit (Close e), fst (onclose e c))]) \<and>
   notifications (snd (onclose e c)) = [Close e] \<and>
   timers (snd (onclose e c)) =
     (if code e \<noteq> 1000 \<and> autoReconnectEnabled c \<and>
         reconnectAttempts c < maxReconnectAttempts c
      then [(ReconnectTimer, reconnectDelay c * 2 ^ reconnectAttempts c)] else []) \<and>
   reconnectAttempts (fst (onclose e c)) =
     (if code e \<noteq> 1000 \<and> autoReconnectEnabled c \<and>
         reconnectAttempts c < maxReconnectAttempts c
      then reconnectAttempts c + 1 else reconnectAttempts c)"
proof -
  have "\<exists>before. snd (onclose e c) = before @ [(Emit (Close e), fst (onclose e c))]"
    by (simp add: onclose_def emit_def Let_def case_prod_beta)
  moreover have "timers (snd (onclose e c)) =
     (if code e \<noteq> 1000 \<and> autoReconnectEnabled c \<and>
         reconnectAttempts c < maxReconnectAttempts c
      then [(ReconnectTimer, reconnectDelay c * 2 ^ reconnectAttempts c)] else [])"
    by (simp add: onclose_timers)
  ultimately show ?thesis
    by (simp add: onclose_client onclose_notifications)
qed

theorem onclose_reconnects_within_budget_witness:
  "status (fst (onclose \<lparr>code = 1006, reason = ''gone''\<rparr> new_client)) = Disconnected \<and>
   session (fst (onclose \<lparr>code = 1006, reason = ''gone''\<rparr> new_client)) = None \<and>
   notifications (snd (onclose \<lparr>code = 1006, reason = ''gone''\<rparr> new_client)) =
     [Close \<lparr>code = 1006, reason = ''gone''\<rparr>] \<and>
   timers (snd (onclose \<lparr>code = 1006, reason = ''gone''\<rparr> new_client)) =
     [(ReconnectTimer, 1000)] \<and>
   reconnectAttempts (fst (onclose \<lparr>code = 1006, reason = ''gone''\<rparr> new_client)) = 1 \<and>
   timers (snd (onclose \<lparr>code = 1000, reason = ''''\<rparr> new_client)) = []"
  using onclose_reconnects_within_budget [of "\<lparr>code = 1006, reason = ''gone''\<rparr>" new_client]
    onclose_reconnects_within_budget [of "\<lparr>code = 1000, reason = ''''\<rparr>" new_client]
  by (simp add: new_client_def)

subsection \<open>Connecting and disconnecting\<close>

text \<open>
  C4. While the status is Connecting or Connected, \<open>connect\<close> returns false, changes
  nothing and has no effect. On a Disconnected client whose session opens, it returns
  true and leaves the client Connected, holding the session, the model and the
  configuration, with the attempt counter at 0; its one effect is the opening of the
  session. The last part says the same of the code after the \<open>await\<close> alone, whatever
  the callbacks that ran during the wait made of the client.
\<close>

theorem connect_rejected_or_connected:
  "(status c = Connecting \<or> status c = Connected \<longrightarrow>
      connect m cfg outcome c = (False, c, [])) \<and>
   (status c = Disconnected \<longrightarrow>
      connect m cfg (Inr s) c =
        (True,
         c\<lparr>status := Connected, session := Some s, model := Some m, config := Some cfg,
           reconnectAttempts := 0\<rparr>,
         [(LiveConnect m
             \<lparr>base = cfg,
              sessionResumption =
                (if truthy (resumptionHandle c) then resumptionHandle c else None),
              contextWindowCompression = True\<rparr>,
           c\<lparr>status := Connecting, model := Some m, config := Some cfg\<rparr>)])) \<and>
   fst (connect_end (Inr s) c') = True \<and>
   status (fst (snd (connect_end (Inr s) c'))) = Connected \<and>
   reconnectAttempts (fst (snd (connect_end (Inr s) c'))) = 0"
  by (simp add: connect_def connect_begin_def connect_end_def Let_def)

theorem connect_rejected_or_connected_witness:
  "connect ''model'' ''config'' (Inr 3) (new_client\<lparr>status := Connecting\<rparr>) =
     (False, new_client\<lparr>status := Connecting\<rparr>, []) \<and>
   connect ''model'' ''config'' (Inl (ConnectError ''refused''))
       (new_client\<lparr>status := Connected, session := Some 2\<rparr>) =
     (False, new_client\<lparr>status := Connected, session := Some 2\<rparr>, []) \<and>
   fst (connect ''model'' ''config'' (Inr 3) (new_client\<lparr>reconnectAttempts := 4\<rparr>)) = True \<and>
   status (fst (snd (connect ''model'' ''config'' (Inr 3)
       (new_client\<lparr>reconnectAttempts := 4\<rparr>)))) = Connected \<and>
   reconnectAttempts (fst (snd (connect ''model'' ''config'' (Inr 3)
       (new_client\<lparr>reconnectAttempts := 4\<rparr>)))) = 0"
  using connect_rejected_or_connected
      [of "new_client\<lparr>status := Connecting\<rparr>" "''model''" "''config''" "Inr 3" 3 new_client]
    connect_rejected_or_connected
      [of "new_client\<lparr>status := Connected, session := Some 2\<rparr>" "''model''" "''config''"
          "Inl (ConnectError ''refused'')" 3 new_client]
    connect_rejected_or_connected
      [of "new_client\<lparr>reconnectAttempts := 4\<rparr>" "''model''" "''config''" "Inr 3" 3 new_client]
  by (simp add: new_client_def)

text \<open>
  C8. Without a session \<open>disconnect\<close> returns false, leaves the client as it is and has
  no effect at all, so no close notification either. With a session it closes that
  session, clears the handle, sets the status to Disconnected, writes the log entry
  \<open>client.close\<close> and returns true.
\<close>

theorem disconnect_without_and_with_session:
  "(session c = None \<longrightarrow> disconnect c = (False, c, [])) \<and>
   (session c = Some s \<longrightarrow>
      disconnect c =
        (True, c\<lparr>session := None, status := Disconnected\<rparr>,
         [(SessionClose s, c),
          (Emit (Log ''client.close'' (MsgString ''Disconnected'')),
           c\<lparr>session := None, status := Disconnected\<rparr>)]))"
  by (simp add: disconnect_def log_def emit_def Let_def)

theorem disconnect_without_and_with_session_witness:
  "disconnect new_client = (False, new_client, []) \<and>
   fst (disconnect (new_client\<lparr>status := Connected, session := Some 4\<rparr>)) = True \<and>
   status (fst (snd (disconnect (new_client\<lparr>status := Connected, session := Some 4\<rparr>)))) =
     Disconnected \<and>
   session (fst (snd (disconnect (new_client\<lparr>status := Connected, session := Some 4\<rparr>)))) =
     None \<and>
   transmissions (snd (snd (disconnect (new_client\<lparr>status := Connected, session := Some 4\<rparr>)))) =
     [SessionClose 4] \<and>
   log_entries (snd (snd (disconnect (new_client\<lparr>status := Connected, session := Some 4\<rparr>)))) =
     [(''client.close'', MsgString ''Disconnected'')] \<and>
   notifications (snd (snd (disconnect (new_client\<lparr>status := Connected, session := Some 4\<rparr>)))) =
     []"
  using disconnect_without_and_with_session [of new_client 4]
    disconnect_without_and_with_session [of "new_client\<lparr>status := Connected, session := Some 4\<rparr>" 4]
  by (simp add: new_client_def)

subsection \<open>Tool responses\<close>

text \<open>
  C9. A tool response whose function responses are absent or empty is dropped: nothing
  is sent and nothing is logged. One with function responses, on a client that holds a
  session, hands exactly these responses to the session and then writes the log entry
  \<open>client.toolResponse\<close> with the tool response.
\<close>

theorem sendToolResponse_empty_or_forwarded:
  "(functionResponses r = None \<or> functionResponses r = Some [] \<longrightarrow>
      sendToolResponse r c = (c, [])) \<and>
   (functionResponses r = Some frs \<and> frs \<noteq> [] \<and> session c = Some s \<longrightarrow>
      sendToolResponse r c =
        (c, [(SessionSendToolResponse s frs, c),
             (Emit (Log ''client.toolResponse'' (MsgToolResponse r)), c)]))"
  by (auto simp add: sendToolResponse_def session_call_def log_def emit_def)

theorem sendToolResponse_empty_or_forwarded_witness:
  "sendToolResponse \<lparr>functionResponses = None\<rparr> (new_client\<lparr>session := Some 1\<rparr>) =
     (new_client\<lparr>session := Some 1\<rparr>, []) \<and>
   sendToolResponse \<lparr>functionResponses = Some []\<rparr> (new_client\<lparr>session := Some 1\<rparr>) =
     (new_client\<lparr>session := Some 1\<rparr>, []) \<and>
   transmissions (snd (sendToolResponse \<lparr>functionResponses = Some [''ok'', ''done'']\<rparr>
       (new_client\<lparr>session := Some 1\<rparr>))) =
     [SessionSendToolResponse 1 [''ok'', ''done'']] \<and>
   log_entries (snd (sendToolResponse \<lparr>functionResponses = Some [''ok'', ''done'']\<rparr>
       (new_client\<lparr>session := Some 1\<rparr>))) =
     [(''client.toolResponse'', MsgToolResponse \<lparr>functionResponses = Some [''ok'', ''done'']\<rparr>)]"
  using sendToolResponse_empty_or_forwarded
      [of "\<lparr>functionResponses = None\<rparr>" "new_client\<lparr>session := Some 1\<rparr>" "[]" 1]
    sendToolResponse_empty_or_forwarded
      [of "\<lparr>functionResponses = Some []\<rparr>" "new_client\<lparr>session := Some 1\<rparr>" "[]" 1]
    sendToolResponse_empty_or_forwarded
      [of "\<lparr>functionResponses = Some [''ok'', ''done'']\<rparr>" "new_client\<lparr>session := Some 1\<rparr>"
          "[''ok'', ''done'']" 1]
  by (simp add: new_client_def)

subsection \<open>Switching auto-reconnection\<close>

text \<open>
  C10. \<open>setAutoReconnect(false)\<close> clears the flag and sets the attempt counter to 0;
  \<open>setAutoReconnect(true)\<close> sets the flag and leaves the counter as it is. So after
  switching off and on again the whole budget is back: each of the next
  \<open>maxReconnectAttempts\<close> abnormal closures in a row sets its timer, from the base
  delay upwards.
\<close>

theorem setAutoReconnect_resets_counter_when_disabling:
  "setAutoReconnect False c = c\<lparr>autoReconnectEnabled := False, reconnectAttempts := 0\<rparr> \<and>
   setAutoReconnect True c = c\<lparr>autoReconnectEnabled := True\<rparr> \<and>
   (code e \<noteq> 1000 \<longrightarrow>
      timers (snd (run b64 pint (replicate (maxReconnectAttempts c) (OnClose e))
                (setAutoReconnect True (setAutoReconnect False c)))) =
        map (\<lambda>i. (ReconnectTimer, reconnectDelay c * 2 ^ i)) [0..<maxReconnectAttempts c])"
proof -
  let ?c = "setAutoReconnect True (setAutoReconnect False c)"
  have c: "?c = c\<lparr>autoReconnectEnabled := True, reconnectAttempts := 0\<rparr>"
    by (simp add: setAutoReconnect_def)
  have "timers (snd (run b64 pint (replicate (maxReconnectAttempts c) (OnClose e)) ?c)) =
        map (\<lambda>i. (ReconnectTimer, reconnectDelay c * 2 ^ i)) [0..<maxReconnectAttempts c]"
    if "code e \<noteq> 1000"
    using run_closes_within_budget [OF that, of ?c "maxReconnectAttempts c" b64 pint]
    by (simp add: c)
  then show ?thesis
    by (simp add: setAutoReconnect_def)
qed

theorem setAutoReconnect_resets_counter_when_disabling_witness:
  "setAutoReconnect False (new_client\<lparr>reconnectAttempts := 5\<rparr>) =
     new_client\<lparr>reconnectAttempts := 5, autoReconnectEnabled := False, reconnectAttempts := 0\<rparr> \<and>
   setAutoReconnect True (new_client\<lparr>reconnectAttempts := 5\<rparr>) =
     new_client\<lparr>reconnectAttempts := 5, autoReconnectEnabled := True\<rparr> \<and>
   timers (snd (run (\<lambda>s. []) (\<lambda>s. None) (replicate 5 (OnClose \<lparr>code = 1006, reason = ''''\<rparr>))
       (setAutoReconnect True (setAutoReconnect False (new_client\<lparr>reconnectAttempts := 5\<rparr>))))) =
     [(ReconnectTimer, 1000), (ReconnectTimer, 2000), (ReconnectTimer, 4000),
      (ReconnectTimer, 8000), (ReconnectTimer, 16000)]"
proof -
  let ?c = "new_client\<lparr>reconnectAttempts := 5\<rparr>"
  let ?e = "\<lparr>code = 1006, reason = ''''\<rparr>"
  note w = setAutoReconnect_resets_counter_when_disabling [of ?c ?e "\<lambda>s. []" "\<lambda>s. None"]
  have max: "maxReconnectAttempts ?c = 5" and delay: "reconnectDelay ?c = 1000"
    by (simp_all add: new_client_def)
  have upt: "[0..<5] = [0, 1, 2, 3, 4::nat]"
    by (simp add: upt_rec)
  have e: "code ?e \<noteq> 1000"
    by simp
  from w e have
    "timers (snd (run (\<lambda>s. []) (\<lambda>s. None) (replicate (maxReconnectAttempts ?c) (OnClose ?e))
        (setAutoReconnect True (setAutoReconnect False ?c)))) =
     map (\<lambda>i. (ReconnectTimer, reconnectDelay ?c * 2 ^ i)) [0..<maxReconnectAttempts ?c]"
    by blast
  then have
    "timers (snd (run (\<lambda>s. []) (\<lambda>s. None) (replicate 5 (OnClose ?e))
        (setAutoReconnect True (setAutoReconnect False ?c)))) =
     [(ReconnectTimer, 1000), (ReconnectTimer, 2000), (ReconnectTimer, 4000),
      (ReconnectTimer, 8000), (ReconnectTimer, 16000)]"
    unfolding max delay upt by simp
  moreover from w have "setAutoReconnect False ?c =
      ?c\<lparr>autoReconnectEnabled := False, reconnectAttempts := 0\<rparr>"
    by blast
  moreover from w have "setAutoReconnect True ?c = ?c\<lparr>autoReconnectEnabled := True\<rparr>"
    by blast
  ultimately show ?thesis
    by blast
qed

text \<open>
  Switching on alone does not bring the budget back: a client that has used up its
  attempts is switched off again by the next abnormal closure, and no timer is set.
\<close>

lemma setAutoReconnect_true_keeps_spent_budget:
  "maxReconnectAttempts c \<le> reconnectAttempts c \<Longrightarrow> code e \<noteq> 1000 \<Longrightarrow>
   timers (snd (onclose e (setAutoReconnect True c))) = [] \<and>
   autoReconnectEnabled (fst (onclose e (setAutoReconnect True c))) = False"
  by (simp add: onclose_timers onclose_client setAutoReconnect_def)

subsection \<open>Server content\<close>

lemma difference_filter: "difference xs (filter P xs) = filter (\<lambda>x. \<not> P x) xs"
  unfolding difference_def by (rule filter_cong) simp_all

lemma audio_step_notifications:
  "notifications (audio_step b64 c d) =
     (case d of None \<Rightarrow> [] | Some s \<Rightarrow> if s = [] then [] else [Audio (b64 s)])"
  by (simp add: audio_step_def emit_def Let_def split: option.splits)

lemma audio_events:
  "notifications (concat (map (audio_step b64 c)
      (map (\<lambda>p. case inlineData p of None \<Rightarrow> None | Some b \<Rightarrow> blob_data b)
         (filter isAudioPart ps)))) =
   map (\<lambda>s. Audio (b64 s)) (List.map_filter audioPayload ps)"
proof (induction ps)
  case Nil
  then show ?case by simp
next
  case (Cons p ps)
  then show ?case
    by (simp add: audio_step_notifications audioPayload_def split: option.splits)
qed

lemma onmessage_modelTurn_notifications:
  "notifications (onmessage_modelTurn b64 msg mt c) =
     map (\<lambda>s. Audio (b64 s))
       (List.map_filter audioPayload (case parts mt of None \<Rightarrow> [] | Some xs \<Rightarrow> xs)) @
     (if filter (\<lambda>p. \<not> isAudioPart p) (case parts mt of None \<Rightarrow> [] | Some xs \<Rightarrow> xs) = []
      then []
      else [Content (filter (\<lambda>p. \<not> isAudioPart p)
                      (case parts mt of None \<Rightarrow> [] | Some xs \<Rightarrow> xs))])"
  unfolding onmessage_modelTurn_def Let_def difference_filter
  by (simp add: audio_events emit_def del: map_map)

lemma onmessage_serverContent_notifications:
  "notifications (onmessage_serverContent b64 msg sc c) =
     (case interrupted sc of
        Some i \<Rightarrow> [Interrupted]
      | None \<Rightarrow>
          (case turnComplete sc of None \<Rightarrow> [] | Some b \<Rightarrow> [Turncomplete]) @
          (case modelTurn sc of
             None \<Rightarrow> []
           | Some mt \<Rightarrow> notifications (onmessage_modelTurn b64 msg mt c)))"
  by (simp add: onmessage_serverContent_def emit_def Let_def split: option.splits)

lemma onmessage_serverContent_message:
  "is_serverContent_message msg sc \<Longrightarrow>
   onmessage b64 pint msg c = (c, onmessage_serverContent b64 msg sc c)"
  by (simp add: is_serverContent_message_def onmessage_def)

text \<open>
  C5, as the claim has it: one audio event for each audio part of a model turn. An
  audio part whose data is missing or is the empty string is an audio part, by its mime
  type, and the loop over the base64 strings skips it: the message below has two audio
  parts and causes no event at all.
\<close>

theorem modelTurn_audio_part_without_data_counterexample:
  "length (filter isAudioPart
      [\<lparr>part_text = None,
         inlineData = Some \<lparr>blob_mimeType = Some ''audio/pcm'', blob_data = Some ''''\<rparr>\<rparr>,
       \<lparr>part_text = None,
         inlineData = Some \<lparr>blob_mimeType = Some ''audio/pcm;rate=24000'', blob_data = None\<rparr>\<rparr>])
     = 2 \<and>
   notifications (snd (onmessage (map of_char) (\<lambda>s. None)
      \<lparr>setupComplete = None, goAway = None, sessionResumptionUpdate = None, toolCall = None,
        toolCallCancellation = None,
        serverContent = Some
          \<lparr>interrupted = None, turnComplete = None,
            modelTurn = Some \<lparr>parts = Some
              [\<lparr>part_text = None,
                 inlineData = Some \<lparr>blob_mimeType = Some ''audio/pcm'', blob_data = Some ''''\<rparr>\<rparr>,
               \<lparr>part_text = None,
                 inlineData = Some \<lparr>blob_mimeType = Some ''audio/pcm;rate=24000'',
                                     blob_data = None\<rparr>\<rparr>]\<rparr>\<rparr>\<rparr>
      new_client)) = []"
  by (simp add: onmessage_def onmessage_serverContent_def onmessage_modelTurn_def
      isAudioPart_def startsWith_def difference_def audio_step_def Let_def)

text \<open>
  C5, amended: for a message handled as a model turn (server content without the
  \<open>interrupted\<close> key, with the \<open>modelTurn\<close> key), the events other than log entries
  are, in this order: \<open>turncomplete\<close> if that key is present too; one audio event,
  carrying the decoded bytes, for each audio part whose data is present and not empty,
  in the order of the parts; and, if there is a part that is not an audio part, one
  content event with exactly the parts that are not audio parts, in their order. With
  audio parts only there is no content event. The client itself is unchanged.
\<close>

theorem modelTurn_audio_then_content:
  assumes "is_serverContent_message msg sc"
    and "interrupted sc = None"
    and "modelTurn sc = Some mt"
    and "ps = (case parts mt of None \<Rightarrow> [] | Some xs \<Rightarrow> xs)"
  shows "fst (onmessage b64 pint msg c) = c \<and>
     notifications (snd (onmessage b64 pint msg c)) =
       (case turnComplete sc of None \<Rightarrow> [] | Some b \<Rightarrow> [Turncomplete]) @
       map (\<lambda>s. Audio (b64 s)) (List.map_filter audioPayload ps) @
       (if list_all isAudioPart ps then [] else [Content (filter (\<lambda>p. \<not> isAudioPart p) ps)])"
proof -
  have "filter (\<lambda>p. \<not> isAudioPart p) ps = [] \<longleftrightarrow> list_all isAudioPart ps"
    by (simp add: filter_empty_conv list_all_iff)
  then show ?thesis
    using assms
    by (simp add: onmessage_serverContent_message [OF assms(1)]
        onmessage_serverContent_notifications onmessage_modelTurn_notifications)
qed

theorem modelTurn_audio_then_content_witness:
  "notifications (snd (onmessage (map of_char) (\<lambda>s. None)
      \<lparr>setupComplete = None, goAway = None, sessionResumptionUpdate = None, toolCall = None,
        toolCallCancellation = None,
        serverContent = Some
          \<lparr>interrupted = None, turnComplete = None,
            modelTurn = Some \<lparr>parts = Some
              [\<lparr>part_text = None,
                 inlineData = Some \<lparr>blob_mimeType = Some ''audio/pcm'', blob_data = Some ''QQ==''\<rparr>\<rparr>,
               \<lparr>part_text = Some ''B'', inlineData = None\<rparr>,
               \<lparr>part_text = None,
                 inlineData = Some \<lparr>blob_mimeType = Some ''audio/pcm'', blob_data = Some ''Qw==''\<rparr>\<rparr>]\<rparr>\<rparr>\<rparr>
      new_client)) =
     [Audio (map of_char ''QQ==''), Audio (map of_char ''Qw==''),
      Content [\<lparr>part_text = Some ''B'', inlineData = None\<rparr>]] \<and>
   notifications (snd (onmessage (map of_char) (\<lambda>s. None)
      \<lparr>setupComplete = None, goAway = None, sessionResumptionUpdate = None, toolCall = None,
        toolCallCancellation = None,
        serverContent = Some
          \<lparr>interrupted = None, turnComplete = None,
            modelTurn = Some \<lparr>parts = Some
              [\<lparr>part_text = None,
                 inlineData = Some \<lparr>blob_mimeType = Some ''audio/pcm'', blob_data = Some ''QQ==''\<rparr>\<rparr>]\<rparr>\<rparr>\<rparr>
      new_client)) =
     [Audio (map of_char ''QQ=='')]"
proof -
  let ?a = "\<lparr>part_text = None,
      inlineData = Some \<lparr>blob_mimeType = Some ''audio/pcm'', blob_data = Some ''QQ==''\<rparr>\<rparr>"
  let ?b = "\<lparr>part_text = Some ''B'', inlineData = None\<rparr>"
  let ?c = "\<lparr>part_text = None,
      inlineData = Some \<lparr>blob_mimeType = Some ''audio/pcm'', blob_data = Some ''Qw==''\<rparr>\<rparr>"
  let ?sc1 = "\<lparr>interrupted = None, turnComplete = None,
      modelTurn = Some \<lparr>parts = Some [?a, ?b, ?c]\<rparr>\<rparr>"
  let ?sc2 = "\<lparr>interrupted = None, turnComplete = None,
      modelTurn = Some \<lparr>parts = Some [?a]\<rparr>\<rparr>"
  let ?m1 = "\<lparr>setupComplete = None, goAway = None, sessionResumptionUpdate = None,
      toolCall = None, toolCallCancellation = None, serverContent = Some ?sc1\<rparr>"
  let ?m2 = "\<lparr>setupComplete = None, goAway = None, sessionResumptionUpdate = None,
      toolCall = None, toolCallCancellation = None, serverContent = Some ?sc2\<rparr>"
  have audio: "isAudioPart ?a" "isAudioPart ?c" "\<not> isAudioPart ?b"
    by (simp_all add: isAudioPart_def startsWith_def)
  have pay: "audioPayload ?a = Some ''QQ==''" "audioPayload ?c = Some ''Qw==''"
    "audioPayload ?b = None"
    by (simp_all add: audioPayload_def isAudioPart_def startsWith_def)
  have "notifications (snd (onmessage (map of_char) (\<lambda>s. None) ?m1 new_client)) =
      [Audio (map of_char ''QQ==''), Audio (map of_char ''Qw==''), Content [?b]]"
    using modelTurn_audio_then_content
        [of ?m1 ?sc1 "\<lparr>parts = Some [?a, ?b, ?c]\<rparr>" "[?a, ?b, ?c]"
            "map of_char" "\<lambda>s. None" new_client]
    by (simp add: is_serverContent_message_def audio pay)
  moreover
  have "notifications (snd (onmessage (map of_char) (\<lambda>s. None) ?m2 new_client)) =
      [Audio (map of_char ''QQ=='')]"
    using modelTurn_audio_then_content
        [of ?m2 ?sc2 "\<lparr>parts = Some [?a]\<rparr>" "[?a]" "map of_char" "\<lambda>s. None" new_client]
    by (simp add: is_serverContent_message_def audio pay)
  ultimately show ?thesis
    by simp
qed

text \<open>
  C6, as the claim has it: every server content with a \<open>turnComplete\<close> marker and a
  model turn that has a part other than audio raises both \<open>turncomplete\<close> and
  \<open>content\<close>. The \<open>interrupted\<close> key is tested first and ends the handling: with it
  in the same server content, the only event is \<open>interrupted\<close>.
\<close>

theorem interrupted_turnComplete_modelTurn_counterexample:
  "notifications (snd (onmessage (map of_char) (\<lambda>s. None)
      \<lparr>setupComplete = None, goAway = None, sessionResumptionUpdate = None, toolCall = None,
        toolCallCancellation = None,
        serverContent = Some
          \<lparr>interrupted = Some True, turnComplete = Some True,
            modelTurn = Some \<lparr>parts = Some [\<lparr>part_text = Some ''B'', inlineData = None\<rparr>]\<rparr>\<rparr>\<rparr>
      new_client)) = [Interrupted]"
  by (simp add: onmessage_def onmessage_serverContent_def emit_def log_def)

text \<open>
  C6, amended: a message handled as server content, without the \<open>interrupted\<close> key,
  with the \<open>turnComplete\<close> key and with a model turn one of whose parts is not an
  audio part, raises \<open>turncomplete\<close> first and, after the audio events of the turn,
  one \<open>content\<close> event with the parts that are not audio parts: both come from the
  one message. A message handled as server content that has the \<open>interrupted\<close> key,
  whatever its value and whatever else the server content holds, raises the
  \<open>interrupted\<close> event and no other.
\<close>

theorem turnComplete_and_content_from_one_message:
  assumes "is_serverContent_message msg sc"
  shows "(interrupted sc = None \<and> turnComplete sc = Some b \<and> modelTurn sc = Some mt \<and>
      parts mt = Some ps \<and> \<not> list_all isAudioPart ps \<longrightarrow>
        notifications (snd (onmessage b64 pint msg c)) =
          Turncomplete # map (\<lambda>s. Audio (b64 s)) (List.map_filter audioPayload ps) @
          [Content (filter (\<lambda>p. \<not> isAudioPart p) ps)]) \<and>
     (interrupted sc = Some i \<longrightarrow>
        notifications (snd (onmessage b64 pint msg c)) = [Interrupted])"
proof -
  have both: "notifications (snd (onmessage b64 pint msg c)) =
      Turncomplete # map (\<lambda>s. Audio (b64 s)) (List.map_filter audioPayload ps) @
      [Content (filter (\<lambda>p. \<not> isAudioPart p) ps)]"
    if "interrupted sc = None" "turnComplete sc = Some b" "modelTurn sc = Some mt"
      "parts mt = Some ps" "\<not> list_all isAudioPart ps"
  proof -
    have "filter (\<lambda>p. \<not> isAudioPart p) ps \<noteq> []"
      using that(5) by (simp add: filter_empty_conv list_all_iff)
    then show ?thesis
      using that
      by (simp add: onmessage_serverContent_message [OF assms]
          onmessage_serverContent_notifications onmessage_modelTurn_notifications)
  qed
  have only: "notifications (snd (onmessage b64 pint msg c)) = [Interrupted]"
    if "interrupted sc = Some i"
    using that
    by (simp add: onmessage_serverContent_message [OF assms]
        onmessage_serverContent_notifications)
  from both only show ?thesis
    by blast
qed

theorem turnComplete_and_content_from_one_message_witness:
  "notifications (snd (onmessage (map of_char) (\<lambda>s. None)
      \<lparr>setupComplete = None, goAway = None, sessionResumptionUpdate = None, toolCall = None,
        toolCallCancellation = None,
        serverContent = Some
          \<lparr>interrupted = None, turnComplete = Some True,
            modelTurn = Some \<lparr>parts = Some [\<lparr>part_text = Some ''B'', inlineData = None\<rparr>]\<rparr>\<rparr>\<rparr>
      new_client)) =
     [Turncomplete, Content [\<lparr>part_text = Some ''B'', inlineData = None\<rparr>]] \<and>
   notifications (snd (onmessage (map of_char) (\<lambda>s. None)
      \<lparr>setupComplete = None, goAway = None, sessionResumptionUpdate = None, toolCall = None,
        toolCallCancellation = None,
        serverContent = Some
          \<lparr>interrupted = Some False, turnComplete = None, modelTurn = None\<rparr>\<rparr>
      new_client)) = [Interrupted]"
proof -
  let ?b = "\<lparr>part_text = Some ''B'', inlineData = None\<rparr>"
  let ?sc = "\<lparr>interrupted = None, turnComplete = Some True,
      modelTurn = Some \<lparr>parts = Some [?b]\<rparr>\<rparr>"
  let ?m = "\<lparr>setupComplete = None, goAway = None, sessionResumptionUpdate = None,
      toolCall = None, toolCallCancellation = None, serverContent = Some ?sc\<rparr>"
  let ?sc' = "\<lparr>interrupted = Some False, turnComplete = None, modelTurn = None\<rparr>"
  let ?m' = "\<lparr>setupComplete = None, goAway = None, sessionResumptionUpdate = None,
      toolCall = None, toolCallCancellation = None, serverContent = Some ?sc'\<rparr>"
  have b: "\<not> isAudioPart ?b" "audioPayload ?b = None"
    by (simp_all add: audioPayload_def isAudioPart_def)
  have m: "is_serverContent_message ?m ?sc" and m': "is_serverContent_message ?m' ?sc'"
    by (simp_all add: is_serverContent_message_def)
  have "notifications (snd (onmessage (map of_char) (\<lambda>s. None) ?m new_client)) =
      [Turncomplete, Content [?b]]"
    using turnComplete_and_content_from_one_message
        [OF m, of True "\<lparr>parts = Some [?b]\<rparr>" "[?b]" "map of_char" "\<lambda>s. None" new_client]
    by (simp add: b)
  moreover
  have "notifications (snd (onmessage (map of_char) (\<lambda>s. None) ?m' new_client)) =
      [Interrupted]"
    using turnComplete_and_content_from_one_message
        [OF m', of _ _ _ "map of_char" "\<lambda>s. None" new_client False]
    by simp
  ultimately show ?thesis
    by simp
qed

subsection \<open>The resumption handle\<close>

lemma connect_resumptionHandle:
  "resumptionHandle (fst (connect_begin m cfg c)) = resumptionHandle c"
  "resumptionHandle (fst (snd (connect_end outcome c))) = resumptionHandle c"
  "resumptionHandle (fst (snd (connect m cfg outcome c))) = resumptionHandle c"
  by (simp_all add: connect_def connect_begin_def connect_end_def scheduleReconnect_def
      Let_def split: sum.splits)

lemma attemptReconnection_resumptionHandle:
  "resumptionHandle (fst (attemptReconnection outcome c)) = resumptionHandle c"
  by (simp add: attemptReconnection_def connect_resumptionHandle case_prod_beta
      split: option.splits)

lemma onmessage_resumption_handle:
  "resumptionHandle (fst (onmessage_resumption u c)) =
     (if resumable u = Some True \<and> truthy (newHandle u) then newHandle u
      else resumptionHandle c)"
  by (simp add: onmessage_resumption_def Let_def)

lemma onmessage_resumptionHandle:
  "resumptionHandle (fst (onmessage b64 pint msg c)) =
     (case setupComplete msg of
        Some x \<Rightarrow> resumptionHandle c
      | None \<Rightarrow>
          (case goAway msg of
             Some ga \<Rightarrow> resumptionHandle c
           | None \<Rightarrow>
               (case sessionResumptionUpdate msg of
                  None \<Rightarrow> resumptionHandle c
                | Some u \<Rightarrow>
                    if resumable u = Some True \<and> truthy (newHandle u) then newHandle u
                    else resumptionHandle c)))"
  by (simp add: onmessage_def onmessage_resumption_handle split: option.splits)

lemma step_resumptionHandle:
  "resumptionHandle (fst (step b64 pint op c)) =
     (case op of
        OnMessage msg \<Rightarrow> resumptionHandle (fst (onmessage b64 pint msg c))
      | _ \<Rightarrow> resumptionHandle c)"
proof (cases op)
  case (Connect m cfg outcome)
  then show ?thesis by (simp add: connect_resumptionHandle)
next
  case Disconnect
  then show ?thesis by (simp add: disconnect_def Let_def split: option.splits)
next
  case OnOpen
  then show ?thesis by (simp add: onopen_def)
next
  case (OnError e)
  then show ?thesis by (simp add: onerror_def)
next
  case (OnClose e)
  then show ?thesis by (simp add: onclose_client)
next
  case (OnMessage msg)
  then show ?thesis by simp
next
  case (SendRealtimeInput chunks)
  then show ?thesis by (simp add: sendRealtimeInput_client)
next
  case (SendToolResponse r)
  then show ?thesis by (simp add: sendToolResponse_def split: option.splits)
next
  case (Send ps tc)
  then show ?thesis by (simp add: send_def Let_def)
next
  case (SetAutoReconnect en)
  then show ?thesis by (simp add: setAutoReconnect_def Let_def)
next
  case (ReconnectTimerFired outcome)
  then show ?thesis by (simp add: attemptReconnection_resumptionHandle)
next
  case (GoAwayTimerFired outcome)
  then show ?thesis by (simp add: attemptReconnection_resumptionHandle)
qed

lemma truthy_Some: "truthy h \<Longrightarrow> \<exists>s. h = Some s \<and> s \<noteq> []"
  by (cases h) simp_all

text \<open>An operation that changes the stored handle is a message with a resumption
  update that is resumable and carries a handle, and the handle stored is that one.\<close>

lemma step_changes_resumptionHandle:
  assumes "resumptionHandle (fst (step b64 pint op c)) \<noteq> resumptionHandle c"
  shows "\<exists>msg u h. op = OnMessage msg \<and> sessionResumptionUpdate msg = Some u \<and>
           resumable u = Some True \<and> newHandle u = Some h \<and> h \<noteq> [] \<and>
           resumptionHandle (fst (step b64 pint op c)) = Some h"
proof -
  from assms obtain msg where op: "op = OnMessage msg"
    using step_resumptionHandle [of b64 pint op c] by (cases op) simp_all
  from assms op have ch: "resumptionHandle (fst (onmessage b64 pint msg c)) \<noteq> resumptionHandle c"
    by simp
  then obtain u where u: "sessionResumptionUpdate msg = Some u"
    and r: "resumable u = Some True" and t: "truthy (newHandle u)"
    and new: "resumptionHandle (fst (onmessage b64 pint msg c)) = newHandle u"
    by (auto simp add: onmessage_resumptionHandle split: option.splits if_splits)
  from truthy_Some [OF t] obtain h where "newHandle u = Some h" "h \<noteq> []"
    by blast
  with op u r new show ?thesis
    by simp
qed

text \<open>A handle that is stored stays stored, whatever the client does or receives.\<close>

lemma step_keeps_resumptionHandle:
  "resumptionHandle c \<noteq> None \<Longrightarrow> resumptionHandle (fst (step b64 pint op c)) \<noteq> None"
  using step_changes_resumptionHandle [of b64 pint op c]
  by (cases "resumptionHandle (fst (step b64 pint op c)) = resumptionHandle c") auto

lemma run_keeps_resumptionHandle:
  "resumptionHandle c \<noteq> None \<Longrightarrow> resumptionHandle (fst (run b64 pint ops c)) \<noteq> None"
proof (induction ops arbitrary: c)
  case Nil
  then show ?case by simp
next
  case (Cons op ops)
  from Cons.IH [OF step_keeps_resumptionHandle [OF Cons.prems, of b64 pint op]]
  show ?case
    by (simp add: run_Cons_client del: run.simps(2))
qed

text \<open>
  C7. The stored resumption handle changes only through a message whose resumption
  update reports \<open>resumable\<close> and carries a handle, and then it is that handle; such a
  message, when no marker tested earlier is present, overwrites whatever was stored; an
  update that reports \<open>resumable = false\<close> leaves the stored handle as it is; and no
  sequence of operations (connect, disconnect, close, setAutoReconnect, or any other
  entry point of the client) clears a handle that is stored. The two halves of
  \<open>connect\<close>, before and after its wait, do not touch it either.
\<close>

theorem resumptionHandle_written_only_by_update:
  "(resumptionHandle (fst (step b64 pint op c)) \<noteq> resumptionHandle c \<longrightarrow>
      (\<exists>msg u h. op = OnMessage msg \<and> sessionResumptionUpdate msg = Some u \<and>
         resumable u = Some True \<and> newHandle u = Some h \<and> h \<noteq> [] \<and>
         resumptionHandle (fst (step b64 pint op c)) = Some h)) \<and>
   (setupComplete msg = None \<and> goAway msg = None \<and> sessionResumptionUpdate msg = Some u \<and>
    resumable u = Some True \<and> newHandle u = Some h \<and> h \<noteq> [] \<longrightarrow>
      resumptionHandle (fst (onmessage b64 pint msg c)) = Some h) \<and>
   (sessionResumptionUpdate msg' = Some u' \<and> resumable u' = Some False \<longrightarrow>
      resumptionHandle (fst (onmessage b64 pint msg' c)) = resumptionHandle c) \<and>
   (resumptionHandle c \<noteq> None \<longrightarrow> resumptionHandle (fst (run b64 pint ops c)) \<noteq> None) \<and>
   resumptionHandle (fst (connect_begin m cfg c)) = resumptionHandle c \<and>
   resumptionHandle (fst (snd (connect_end outcome c))) = resumptionHandle c"
proof -
  have "resumptionHandle (fst (onmessage b64 pint msg c)) = Some h"
    if "setupComplete msg = None" "goAway msg = None" "sessionResumptionUpdate msg = Some u"
      "resumable u = Some True" "newHandle u = Some h" "h \<noteq> []"
    using that by (simp add: onmessage_resumptionHandle)
  moreover
  have "resumptionHandle (fst (onmessage b64 pint msg' c)) = resumptionHandle c"
    if "sessionResumptionUpdate msg' = Some u'" "resumable u' = Some False"
    using that by (simp add: onmessage_resumptionHandle split: option.splits)
  ultimately show ?thesis
    using step_changes_resumptionHandle [of b64 pint op c]
      run_keeps_resumptionHandle [of c b64 pint ops]
    by (simp add: connect_resumptionHandle)
qed

theorem resumptionHandle_written_only_by_update_witness:
  "resumptionHandle (fst (onmessage (map of_char) (\<lambda>s. None)
      \<lparr>setupComplete = None, goAway = None,
        sessionResumptionUpdate = Some \<lparr>resumable = Some True, newHandle = Some ''h2''\<rparr>,
        toolCall = None, toolCallCancellation = None, serverContent = None\<rparr>
      (new_client\<lparr>resumptionHandle := Some ''h1''\<rparr>))) = Some ''h2'' \<and>
   resumptionHandle (fst (onmessage (map of_char) (\<lambda>s. None)
      \<lparr>setupComplete = None, goAway = None,
        sessionResumptionUpdate = Some \<lparr>resumable = Some False, newHandle = Some ''h2''\<rparr>,
        toolCall = None, toolCallCancellation = None, serverContent = None\<rparr>
      (new_client\<lparr>resumptionHandle := Some ''h1''\<rparr>))) = Some ''h1'' \<and>
   resumptionHandle (fst (run (map of_char) (\<lambda>s. None)
      [Connect ''model'' ''config'' (Inr 0), SetAutoReconnect False,
       OnClose \<lparr>code = 1006, reason = ''''\<rparr>, Disconnect]
      (new_client\<lparr>resumptionHandle := Some ''h1''\<rparr>))) \<noteq> None"
proof -
  let ?c = "new_client\<lparr>resumptionHandle := Some ''h1''\<rparr>"
  let ?u = "\<lparr>resumable = Some True, newHandle = Some ''h2''\<rparr>"
  let ?u' = "\<lparr>resumable = Some False, newHandle = Some ''h2''\<rparr>"
  let ?m = "\<lparr>setupComplete = None, goAway = None, sessionResumptionUpdate = Some ?u,
      toolCall = None, toolCallCancellation = None, serverContent = None\<rparr>"
  let ?m' = "\<lparr>setupComplete = None, goAway = None, sessionResumptionUpdate = Some ?u',
      toolCall = None, toolCallCancellation = None, serverContent = None\<rparr>"
  let ?ops = "[Connect ''model'' ''config'' (Inr 0), SetAutoReconnect False,
       OnClose \<lparr>code = 1006, reason = ''''\<rparr>, Disconnect]"
  note w = resumptionHandle_written_only_by_update
      [of "map of_char" "\<lambda>s. None" Disconnect ?c ?m ?u "''h2''" ?m' ?u' ?ops
          "''model''" "''config''" "Inr 0"]
  have c: "resumptionHandle ?c = Some ''h1''"
    by simp
  from w have "resumptionHandle (fst (onmessage (map of_char) (\<lambda>s. None) ?m ?c)) = Some ''h2''"
    by simp
  moreover
  from w c have "resumptionHandle (fst (onmessage (map of_char) (\<lambda>s. None) ?m' ?c)) = Some ''h1''"
    by simp
  moreover
  from w c have "resumptionHandle (fst (run (map of_char) (\<lambda>s. None) ?ops ?c)) \<noteq> None"
    by (simp del: run.simps)
  ultimately show ?thesis
    by blast
qed

end
